theory Spec2Isabelle
  imports Complex_Main
begin

section \<open>Python values and errors\<close>

text \<open>
  Exceptions of the Python source are values: every function that can raise returns
  \<open>py_error + 'a\<close>, with \<open>Inl\<close> for the exception.
\<close>

datatype py_error =
  ValueError | UnboundLocalError | KeyError | IndexError | ZeroDivisionError | InvalidArgumentError

definition sequence_length :: nat where
  "sequence_length = 25"

subsection \<open>String methods used by the caption loader\<close>

text \<open>The characters \<open>str.strip()\<close> and \<open>str.split()\<close> treat as whitespace (ASCII range).\<close>

definition whitespace :: "char list" where
  "whitespace = [CHR '' '', CHR 0x09, CHR 0x0A, CHR 0x0B, CHR 0x0C, CHR 0x0D,
                 CHR 0x1C, CHR 0x1D, CHR 0x1E, CHR 0x1F]"

text \<open>\<open>s.strip(chars)\<close>: drop leading and trailing characters that are in \<open>chars\<close>.\<close>

definition strip_chars :: "char list \<Rightarrow> string \<Rightarrow> string" where
  "strip_chars cs s = rev (dropWhile (\<lambda>c. c \<in> set cs) (rev (dropWhile (\<lambda>c. c \<in> set cs) s)))"

definition strip :: "string \<Rightarrow> string" where
  "strip s = strip_chars whitespace s"

text \<open>\<open>s.split(sep)\<close> for a one-character separator: empty fields are kept.\<close>

fun split_sep :: "char \<Rightarrow> string \<Rightarrow> string list" where
  "split_sep sep [] = [[]]"
| "split_sep sep (c # cs) =
     (if c = sep then [] # split_sep sep cs
      else (case split_sep sep cs of [] \<Rightarrow> [[c]] | w # ws \<Rightarrow> (c # w) # ws))"

text \<open>\<open>s.split()\<close>: split at runs of whitespace, no empty fields.\<close>

fun split_fields :: "string \<Rightarrow> string list" where
  "split_fields [] = [[]]"
| "split_fields (c # cs) =
     (if c \<in> set whitespace then [] # split_fields cs
      else (case split_fields cs of [] \<Rightarrow> [[c]] | w # ws \<Rightarrow> (c # w) # ws))"

definition split_ws :: "string \<Rightarrow> string list" where
  "split_ws s = filter (\<lambda>w. w \<noteq> []) (split_fields s)"

definition endswith :: "string \<Rightarrow> string \<Rightarrow> bool" where
  "endswith s suf = (length suf \<le> length s \<and> drop (length s - length suf) s = suf)"

definition startswith :: "string \<Rightarrow> string \<Rightarrow> bool" where
  "startswith s pre = (take (length pre) s = pre)"

text \<open>\<open>os.path.join(a, b)\<close> on a POSIX system.\<close>

definition path_join :: "string \<Rightarrow> string \<Rightarrow> string" where
  "path_join a b =
     (if startswith b ''/'' then b
      else if a = [] \<or> endswith a ''/'' then a @ b
      else a @ ''/'' @ b)"

section \<open>Loading the caption file: \<open>map_image_caption\<close>\<close>

text \<open>
  The dictionary \<open>mapped_captions\<close> is an association list in insertion order, the set
  \<open>skip_these_images\<close> a list without duplicates, \<open>text_data\<close> a list. The argument is the
  result of \<open>caption_file.readlines()\<close>.
\<close>

type_synonym caption_dict = "(string \<times> string list) list"

record loader_state =
  mapped_captions :: caption_dict
  text_data :: "string list"
  skip_these_images :: "string list"

text \<open>\<open>mapped_captions[image_name].append(caption)\<close>, or a new entry at the end.\<close>

fun dict_append :: "caption_dict \<Rightarrow> string \<Rightarrow> string \<Rightarrow> caption_dict" where
  "dict_append [] k v = [(k, [v])]"
| "dict_append ((k', vs) # m) k v =
     (if k' = k then (k', vs @ [v]) # m else (k', vs) # dict_append m k v)"

definition dict_mem :: "caption_dict \<Rightarrow> string \<Rightarrow> bool" where
  "dict_mem m k = (k \<in> set (map fst m))"

definition dict_del :: "caption_dict \<Rightarrow> string \<Rightarrow> caption_dict" where
  "dict_del m k = filter (\<lambda>kv. fst kv \<noteq> k) m"

text \<open>One iteration of the loop over the lines of the file.\<close>

definition caption_line :: "loader_state \<Rightarrow> string \<Rightarrow> py_error + loader_state" where
  "caption_line st c_data =
     (case split_sep (CHR 0x09) (strip_chars [CHR 0x0A] c_data) of
        [image_name0, caption0] \<Rightarrow>
          (let caption = strip caption0;
               image_name = path_join ''Flicker8k_Dataset''
                              (strip (hd (split_sep (CHR ''#'') image_name0)));
               tokens = split_ws (strip caption)
           in if length tokens < 5 \<or> length tokens > sequence_length
              then Inr (st\<lparr>skip_these_images := List.insert image_name (skip_these_images st)\<rparr>)
              else if endswith image_name ''jpg'' \<and> image_name \<notin> set (skip_these_images st)
              then Inr (st\<lparr>text_data := text_data st @ [''<start> '' @ caption @ '' <end>''],
                           mapped_captions := dict_append (mapped_captions st) image_name caption\<rparr>)
              else Inr st)
      | _ \<Rightarrow> Inl ValueError)"

fun caption_lines :: "loader_state \<Rightarrow> string list \<Rightarrow> py_error + loader_state" where
  "caption_lines st [] = Inr st"
| "caption_lines st (c_data # rest) =
     (case caption_line st c_data of Inl e \<Rightarrow> Inl e | Inr st' \<Rightarrow> caption_lines st' rest)"

text \<open>The second loop: delete every flagged image that is a key of the dictionary.\<close>

fun delete_skipped :: "caption_dict \<Rightarrow> string list \<Rightarrow> caption_dict" where
  "delete_skipped m [] = m"
| "delete_skipped m (image_name # rest) =
     delete_skipped (if dict_mem m image_name then dict_del m image_name else m) rest"

definition map_image_caption :: "string list \<Rightarrow> py_error + (caption_dict \<times> string list)" where
  "map_image_caption caption_data =
     (case caption_lines \<lparr>mapped_captions = [], text_data = [], skip_these_images = []\<rparr> caption_data of
        Inl e \<Rightarrow> Inl e
      | Inr st \<Rightarrow> Inr (delete_skipped (mapped_captions st) (skip_these_images st), text_data st))"

text \<open>
  \<open>prepare_dataset(list(data.keys()), list(data.values()))\<close> maps \<open>process_input\<close> over the
  pairs, and \<open>process_input\<close> passes the captions of an image to \<open>vectorization\<close> as they
  are in the dictionary. \<open>train_val_split\<close> only partitions the keys, so the strings that
  reach the vectorizer from the two datasets together are the values of the dictionary.
\<close>

definition vectorizer_inputs :: "caption_dict \<Rightarrow> string list" where
  "vectorizer_inputs data = concat (map snd data)"

section \<open>Tensors\<close>

text \<open>
  A tensor is a nested list, outermost axis first: a \<open>(B, L)\<close> tensor of token ids is a
  \<open>nat list list\<close>, a \<open>(B, L, D)\<close> tensor of numbers a \<open>real list list list\<close>. Finite
  \<open>float32\<close> values are idealised as reals. The shape is read off the lists; an axis under
  an empty axis has extent \<open>0\<close>.
\<close>

type_synonym 'a tensor2 = "'a list list"
type_synonym 'a tensor3 = "'a list list list"

definition tf_shape3 :: "'a tensor3 \<Rightarrow> nat list" where
  "tf_shape3 t =
     [length t,
      (case t of [] \<Rightarrow> 0 | m # _ \<Rightarrow> length m),
      (case t of [] \<Rightarrow> 0 | m # _ \<Rightarrow> (case m of [] \<Rightarrow> 0 | r # _ \<Rightarrow> length r))]"

definition tf_range :: "nat \<Rightarrow> int list" where
  "tf_range n = map int [0..<n]"

text \<open>\<open>x[:, tf.newaxis]\<close> on a vector: shape \<open>(n)\<close> to \<open>(n, 1)\<close>.\<close>

definition newaxis_last :: "'a list \<Rightarrow> 'a tensor2" where
  "newaxis_last x = map (\<lambda>v. [v]) x"

text \<open>
  \<open>i >= j\<close> with \<open>i\<close> of shape \<open>(n, 1)\<close> and \<open>j\<close> of shape \<open>(m)\<close>: broadcasting gives the
  \<open>(n, m)\<close> tensor of \<open>i[a, 0] >= j[b]\<close>. A row of \<open>i\<close> that is not a singleton is compared
  elementwise.
\<close>

definition greater_equal :: "int tensor2 \<Rightarrow> int list \<Rightarrow> bool tensor2" where
  "greater_equal i j =
     map (\<lambda>row. case row of [x] \<Rightarrow> map (\<lambda>y. x \<ge> y) j | _ \<Rightarrow> map2 (\<lambda>x y. x \<ge> y) row j) i"

definition cast_int32 :: "bool tensor2 \<Rightarrow> int tensor2" where
  "cast_int32 t = map (map (\<lambda>b. if b then 1 else 0)) t"

text \<open>\<open>tf.tile(t, [a, b, c])\<close> on a rank-3 tensor: repeat along each axis.\<close>

definition tile3 :: "'a tensor3 \<Rightarrow> nat \<times> nat \<times> nat \<Rightarrow> 'a tensor3" where
  "tile3 t mult =
     (case mult of (a, b, c) \<Rightarrow>
        concat (replicate a
          (map (\<lambda>m. concat (replicate b (map (\<lambda>r. concat (replicate c r)) m))) t)))"

section \<open>The decoder block\<close>

text \<open>
  \<open>get_causal_attention_mask\<close> reads only the shape of its argument. The reshape to
  \<open>(1, L, L)\<close> of the \<open>(L, L)\<close> tensor adds a leading axis of extent 1.
\<close>

definition get_causal_attention_mask :: "'a tensor3 \<Rightarrow> int tensor3" where
  "get_causal_attention_mask inputs =
     (let input_shape = tf_shape3 inputs;
          batch_size = input_shape ! 0;
          seq_len = input_shape ! 1;
          i = newaxis_last (tf_range seq_len);
          j = tf_range seq_len;
          mask' = cast_int32 (greater_equal i j);
          mask' = [mask'];
          mult = (batch_size, 1, 1)
      in tile3 mask' mult)"

text \<open>
  The layers of the decoder are functions of the Keras library; the block is modelled over
  any such functions. An attention layer takes query, value, key, the attention mask and
  the training flag.
\<close>

type_synonym attention =
  "real tensor3 \<Rightarrow> real tensor3 \<Rightarrow> real tensor3 \<Rightarrow> int tensor3 \<Rightarrow> bool \<Rightarrow> real tensor3"

record decoder_layers =
  embedding :: "nat tensor2 \<Rightarrow> real tensor3"
  first_attention_layer :: attention
  second_attention_layer :: attention
  first_feed_forward_layer :: "real tensor3 \<Rightarrow> real tensor3"
  second_feed_forward_layer :: "real tensor3 \<Rightarrow> real tensor3"
  first_normalization_layer :: "real tensor3 \<Rightarrow> real tensor3"
  second_normalization_layer :: "real tensor3 \<Rightarrow> real tensor3"
  third_normalization_layer :: "real tensor3 \<Rightarrow> real tensor3"
  first_dropout_layer :: "real tensor3 \<Rightarrow> bool \<Rightarrow> real tensor3"
  second_dropout_layer :: "real tensor3 \<Rightarrow> bool \<Rightarrow> real tensor3"
  out :: "real tensor3 \<Rightarrow> real tensor3"

definition tensor_add :: "real tensor3 \<Rightarrow> real tensor3 \<Rightarrow> real tensor3" where
  "tensor_add x y = map2 (map2 (map2 (+))) x y"

text \<open>\<open>tf.cast(mask[:, :, tf.newaxis], tf.int32)\<close>: shape \<open>(B, L)\<close> to \<open>(B, L, 1)\<close>.\<close>

definition mask_column :: "bool tensor2 \<Rightarrow> int tensor3" where
  "mask_column mask' = map (\<lambda>row. map (\<lambda>b. [if b then 1 else 0]) row) mask'"

text \<open>\<open>tf.cast(mask[:, tf.newaxis, :], tf.int32)\<close>: shape \<open>(B, L)\<close> to \<open>(B, 1, L)\<close>.\<close>

definition mask_row :: "bool tensor2 \<Rightarrow> int tensor3" where
  "mask_row mask' = map (\<lambda>row. [map (\<lambda>b. if b then 1 else 0) row]) mask'"

text \<open>\<open>tf.minimum\<close> of a \<open>(B, 1, L)\<close> and a \<open>(B, L, L)\<close> tensor, the first broadcast over rows.\<close>

definition tf_minimum :: "int tensor3 \<Rightarrow> int tensor3 \<Rightarrow> int tensor3" where
  "tf_minimum x y = map2 (\<lambda>xm ym. map (\<lambda>yr. map2 min (concat xm) yr) ym) x y"

text \<open>
  \<open>DecoderClass.call\<close>. The local variables \<open>padding_mask\<close> and \<open>combined_mask\<close> are
  assigned only in the branch \<open>mask is not None\<close>: they are options here, \<open>None\<close> while
  unassigned, and reading an unassigned local raises \<open>UnboundLocalError\<close>. The arguments of a
  call are evaluated before the call, so the read of \<open>combined_mask\<close> comes first.
\<close>

definition read_local :: "'a option \<Rightarrow> py_error + 'a" where
  "read_local v = (case v of None \<Rightarrow> Inl UnboundLocalError | Some x \<Rightarrow> Inr x)"

definition DecoderClass_call ::
  "decoder_layers \<Rightarrow> nat tensor2 \<Rightarrow> real tensor3 \<Rightarrow> bool \<Rightarrow> bool tensor2 option
     \<Rightarrow> py_error + real tensor3" where
  "DecoderClass_call self inputs0 encoder_outputs training mask' =
     (let inputs = embedding self inputs0;
          causal_mask = get_causal_attention_mask inputs;
          padding_mask = (case mask' of None \<Rightarrow> None | Some m \<Rightarrow> Some (mask_column m));
          combined_mask = (case mask' of None \<Rightarrow> None
                           | Some m \<Rightarrow> Some (tf_minimum (mask_row m) causal_mask))
      in case read_local combined_mask of
           Inl e \<Rightarrow> Inl e
         | Inr cm \<Rightarrow>
            (let first_attention_output = first_attention_layer self inputs inputs inputs cm training;
                 first_normalization_output =
                   first_normalization_layer self (tensor_add inputs first_attention_output)
             in case read_local padding_mask of
                  Inl e \<Rightarrow> Inl e
                | Inr pm \<Rightarrow>
                   (let second_attention_output =
                          second_attention_layer self first_normalization_output
                            encoder_outputs encoder_outputs pm training;
                        second_normalization_output =
                          second_normalization_layer self
                            (tensor_add first_normalization_output second_attention_output);
                        output = first_feed_forward_layer self second_normalization_output;
                        output = first_dropout_layer self output training;
                        output = second_feed_forward_layer self output;
                        output = third_normalization_layer self
                                   (tensor_add output second_normalization_output);
                        output = second_dropout_layer self output training
                    in Inr (out self output))))"

text \<open>
  \<open>TransformerDecoderBlock.call\<close>, the second definition of the block in the file, is the
  same statements with the layers renamed (\<open>attention_1\<close>, \<open>layernorm_1\<close>, \<open>ffn_layer_1\<close>,
  \<open>dropout_1\<close>, ...).
\<close>

definition TransformerDecoderBlock_call ::
  "decoder_layers \<Rightarrow> nat tensor2 \<Rightarrow> real tensor3 \<Rightarrow> bool \<Rightarrow> bool tensor2 option
     \<Rightarrow> py_error + real tensor3" where
  "TransformerDecoderBlock_call = DecoderClass_call"

section \<open>Floating-point results\<close>

text \<open>
  Finite \<open>float32\<close> values are idealised as reals (no rounding, no overflow). A float
  division does not raise: dividing by zero gives an infinity or, for \<open>0 / 0\<close>, NaN. The
  divisors in this program are sums of \<open>0.0\<close>/\<open>1.0\<close> and casts of integers, so a zero
  divisor is \<open>+0.0\<close>.
\<close>

datatype tf_float = Fin real | PosInf | NegInf | NaN

definition tf_truediv :: "real \<Rightarrow> real \<Rightarrow> tf_float" where
  "tf_truediv x y =
     (if y \<noteq> 0 then Fin (x / y)
      else if x = 0 then NaN
      else if 0 < x then PosInf else NegInf)"

text \<open>Product of a finite number with a float.\<close>

fun tf_scale :: "real \<Rightarrow> tf_float \<Rightarrow> tf_float" where
  "tf_scale a (Fin b) = Fin (a * b)"
| "tf_scale a PosInf = (if a = 0 then NaN else if 0 < a then PosInf else NegInf)"
| "tf_scale a NegInf = (if a = 0 then NaN else if 0 < a then NegInf else PosInf)"
| "tf_scale a NaN = NaN"

fun tf_add :: "tf_float \<Rightarrow> tf_float \<Rightarrow> tf_float" where
  "tf_add (Fin a) (Fin b) = Fin (a + b)"
| "tf_add NaN y = NaN"
| "tf_add x NaN = NaN"
| "tf_add PosInf NegInf = NaN"
| "tf_add NegInf PosInf = NaN"
| "tf_add PosInf y = PosInf"
| "tf_add NegInf y = NegInf"
| "tf_add (Fin a) y = y"

section \<open>Masked loss and accuracy\<close>

text \<open>
  Elementwise operations on two \<open>(B, L)\<close> tensors of the same shape. The operands in
  \<open>calculate_loss\<close> and \<open>calculate_accuracy\<close> all have the shape of \<open>y_true\<close>; on other
  shapes TensorFlow broadcasts or raises, which is modelled as raising.
\<close>

definition same_shape2 :: "'a tensor2 \<Rightarrow> 'b tensor2 \<Rightarrow> bool" where
  "same_shape2 x y = list_all2 (\<lambda>r s. length r = length s) x y"

definition elementwise2 ::
  "('a \<Rightarrow> 'b \<Rightarrow> 'c) \<Rightarrow> 'a tensor2 \<Rightarrow> 'b tensor2 \<Rightarrow> py_error + 'c tensor2" where
  "elementwise2 f x y =
     (if same_shape2 x y then Inr (map2 (map2 f) x y) else Inl InvalidArgumentError)"

definition cast_float :: "bool tensor2 \<Rightarrow> real tensor2" where
  "cast_float t = map (map (\<lambda>b. if b then 1 else 0)) t"

definition reduce_sum :: "real tensor2 \<Rightarrow> real" where
  "reduce_sum t = sum_list (map sum_list t)"

text \<open>\<open>tf.math.not_equal(t, 0)\<close>.\<close>

definition not_equal_0 :: "nat tensor2 \<Rightarrow> bool tensor2" where
  "not_equal_0 t = map (map (\<lambda>x. x \<noteq> 0)) t"

text \<open>
  \<open>calculate_loss\<close>. \<open>self.loss\<close> is the loss the model was compiled with (the Keras sparse
  categorical cross-entropy with \<open>reduction="none"\<close>, one value per position): a parameter.
\<close>

definition calculate_loss ::
  "(nat tensor2 \<Rightarrow> real tensor3 \<Rightarrow> real tensor2) \<Rightarrow> nat tensor2 \<Rightarrow> real tensor3 \<Rightarrow> bool tensor2
     \<Rightarrow> py_error + tf_float" where
  "calculate_loss self_loss y_true y_pred mask' =
     (let loss = self_loss y_true y_pred;
          mask' = cast_float mask'
      in case elementwise2 (*) loss mask' of
           Inl e \<Rightarrow> Inl e
         | Inr loss \<Rightarrow> Inr (tf_truediv (reduce_sum loss) (reduce_sum mask')))"

text \<open>
  \<open>tf.argmax\<close> along the last axis: the smallest index of a largest entry; an empty axis
  raises.
\<close>

fun argmax_from :: "nat \<Rightarrow> real \<Rightarrow> nat \<Rightarrow> real list \<Rightarrow> nat" where
  "argmax_from best v k [] = best"
| "argmax_from best v k (x # xs) =
     (if v < x then argmax_from k x (Suc k) xs else argmax_from best v (Suc k) xs)"

definition argmax :: "real list \<Rightarrow> py_error + nat" where
  "argmax xs = (case xs of [] \<Rightarrow> Inl InvalidArgumentError | x # rest \<Rightarrow> Inr (argmax_from 0 x 1 rest))"

fun sequence :: "(py_error + 'a) list \<Rightarrow> py_error + 'a list" where
  "sequence [] = Inr []"
| "sequence (r # rs) =
     (case r of Inl e \<Rightarrow> Inl e
      | Inr x \<Rightarrow> (case sequence rs of Inl e \<Rightarrow> Inl e | Inr xs \<Rightarrow> Inr (x # xs)))"

definition tf_argmax :: "real tensor3 \<Rightarrow> py_error + nat tensor2" where
  "tf_argmax t = sequence (map (\<lambda>m. sequence (map argmax m)) t)"

definition calculate_accuracy ::
  "nat tensor2 \<Rightarrow> real tensor3 \<Rightarrow> bool tensor2 \<Rightarrow> py_error + tf_float" where
  "calculate_accuracy y_true y_pred mask' =
     (case tf_argmax y_pred of
        Inl e \<Rightarrow> Inl e
      | Inr am \<Rightarrow>
         (case elementwise2 (=) y_true am of
            Inl e \<Rightarrow> Inl e
          | Inr accuracy \<Rightarrow>
             (case elementwise2 (\<and>) mask' accuracy of
                Inl e \<Rightarrow> Inl e
              | Inr accuracy \<Rightarrow>
                 (let accuracy = cast_float accuracy;
                      mask' = cast_float mask'
                  in Inr (tf_truediv (reduce_sum accuracy) (reduce_sum mask'))))))"

text \<open>
  The masked loss in the words of the specification: the per-position cross-entropy
  values, zeroed where the target token is padding (id 0), summed, and divided by the
  number of non-padding target positions.
\<close>

definition spec_zeroed_sum :: "nat tensor2 \<Rightarrow> real tensor2 \<Rightarrow> real" where
  "spec_zeroed_sum y_true ce =
     (\<Sum>(ts, cs) \<leftarrow> zip y_true ce. \<Sum>(t, c) \<leftarrow> zip ts cs. if t = 0 then 0 else c)"

definition spec_valid_count :: "nat tensor2 \<Rightarrow> nat" where
  "spec_valid_count y_true = (\<Sum>ts \<leftarrow> y_true. length (filter (\<lambda>t. t \<noteq> 0) ts))"

definition spec_masked_loss :: "nat tensor2 \<Rightarrow> real tensor2 \<Rightarrow> real" where
  "spec_masked_loss y_true ce = spec_zeroed_sum y_true ce / real (spec_valid_count y_true)"

section \<open>The learning-rate schedule\<close>

record LRSchedule =
  post_warmup_learning_rate :: real
  warmup_steps :: int

text \<open>\<open>LRSchedule.__call__\<close>; \<open>step\<close> is the optimizer's iteration counter.\<close>

definition LRSchedule_call :: "LRSchedule \<Rightarrow> nat \<Rightarrow> tf_float" where
  "LRSchedule_call self step =
     (let global_step = real step;
          warmup_steps' = real_of_int (warmup_steps self);
          warmup_progress = tf_truediv global_step warmup_steps';
          warmup_learning_rate = tf_scale (post_warmup_learning_rate self) warmup_progress
      in if global_step < warmup_steps' then warmup_learning_rate
         else Fin (post_warmup_learning_rate self))"

text \<open>
  The four assignments of \<open>__call__\<close> stand before \<open>tf.cond\<close> and are executed on every
  call, whichever branch is then chosen. Their values, in the order of the source:
  \<open>global_step\<close>, the cast \<open>warmup_steps\<close>, \<open>warmup_progress = global_step / warmup_steps\<close>
  and \<open>warmup_learning_rate\<close>.
\<close>

record schedule_locals =
  global_step_val :: real
  warmup_steps_val :: real
  warmup_progress_val :: tf_float
  warmup_learning_rate_val :: tf_float

definition LRSchedule_statements :: "LRSchedule \<Rightarrow> nat \<Rightarrow> schedule_locals" where
  "LRSchedule_statements self step =
     \<lparr>global_step_val = real step,
      warmup_steps_val = real_of_int (warmup_steps self),
      warmup_progress_val = tf_truediv (real step) (real_of_int (warmup_steps self)),
      warmup_learning_rate_val =
        tf_scale (post_warmup_learning_rate self)
          (tf_truediv (real step) (real_of_int (warmup_steps self)))\<rparr>"

section \<open>Greedy decoding\<close>

text \<open>
  The trained networks, the vectorizer and its vocabulary are parameters. A decoder takes
  the token ids, the encoder output, the training flag and the optional padding mask.
  The constant \<open>SEQ_LENGTH\<close> is not defined in the file; it is a parameter too.
\<close>

type_synonym decoder_fn =
  "nat tensor2 \<Rightarrow> real tensor3 \<Rightarrow> bool \<Rightarrow> bool tensor2 option \<Rightarrow> py_error + real tensor3"

record 'img caption_model =
  cnn_model :: "'img \<Rightarrow> real tensor3"
  encoder :: "real tensor3 \<Rightarrow> bool \<Rightarrow> real tensor3"
  decoder :: decoder_fn

text \<open>\<open>xs[i]\<close> on a list, and \<open>d[k]\<close> on the dictionary \<open>dict(zip(range(len(vocab)), vocab))\<close>.\<close>

definition list_index :: "'a list \<Rightarrow> nat \<Rightarrow> py_error + 'a" where
  "list_index xs i = (if i < length xs then Inr (xs ! i) else Inl IndexError)"

definition index_lookup :: "string list \<Rightarrow> nat \<Rightarrow> py_error + string" where
  "index_lookup vocab k = (if k < length vocab then Inr (vocab ! k) else Inl KeyError)"

text \<open>\<open>np.argmax\<close> of a vector: the first index of a largest entry, \<open>ValueError\<close> when empty.\<close>

definition np_argmax :: "real list \<Rightarrow> py_error + nat" where
  "np_argmax xs = (case xs of [] \<Rightarrow> Inl ValueError | x # rest \<Rightarrow> Inr (argmax_from 0 x 1 rest))"

text \<open>
  The body of the \<open>for\<close> loop of the first \<open>generate_caption\<close>: the result is the new
  \<open>decoded_caption\<close> and whether the loop was left by \<open>break\<close>.
\<close>

definition decode_step ::
  "'img caption_model \<Rightarrow> (string list \<Rightarrow> nat tensor2) \<Rightarrow> string list \<Rightarrow> real tensor3
     \<Rightarrow> nat \<Rightarrow> string \<Rightarrow> py_error + bool \<times> string" where
  "decode_step model vectorization vocab encoded_img i decoded_caption =
     (let tokenized_caption = map butlast (vectorization [decoded_caption]);
          mask' = not_equal_0 tokenized_caption
      in case decoder model tokenized_caption encoded_img False (Some mask') of
           Inl e \<Rightarrow> Inl e
         | Inr predictions \<Rightarrow>
            (case list_index predictions 0 of
               Inl e \<Rightarrow> Inl e
             | Inr p0 \<Rightarrow>
                (case list_index p0 i of
                   Inl e \<Rightarrow> Inl e
                 | Inr row \<Rightarrow>
                    (case np_argmax row of
                       Inl e \<Rightarrow> Inl e
                     | Inr sampled_token_index \<Rightarrow>
                        (case index_lookup vocab sampled_token_index of
                           Inl e \<Rightarrow> Inl e
                         | Inr sampled_token \<Rightarrow>
                            if sampled_token = ''<end>'' then Inr (True, decoded_caption)
                            else Inr (False, decoded_caption @ '' '' @ sampled_token))))))"

text \<open>
  The \<open>for\<close> loop over a range, given as the list of its indices. The first component of
  the result is the number of iterations that were started; the second is the exception
  that ended the loop, or the caption.
\<close>

fun greedy_loop ::
  "(nat \<Rightarrow> string \<Rightarrow> py_error + bool \<times> string) \<Rightarrow> nat list \<Rightarrow> string
     \<Rightarrow> nat \<times> (py_error + string)" where
  "greedy_loop body [] decoded_caption = (0, Inr decoded_caption)"
| "greedy_loop body (i # rest) decoded_caption =
     (case body i decoded_caption of
        Inl e \<Rightarrow> (1, Inl e)
      | Inr (stop, d) \<Rightarrow>
          if stop then (1, Inr d)
          else (case greedy_loop body rest d of (n, r) \<Rightarrow> (Suc n, r)))"

text \<open>\<open>s.replace(old, new)\<close> for a non-empty \<open>old\<close>, scanning from the left.\<close>

fun replace :: "string \<Rightarrow> string \<Rightarrow> nat \<Rightarrow> string \<Rightarrow> string" where
  "replace old new skip [] = []"
| "replace old new skip (c # cs) =
     (if 0 < skip then replace old new (skip - 1) cs
      else if startswith (c # cs) old then new @ replace old new (length old - 1) cs
      else c # replace old new 0 cs)"

definition generate_caption_1 ::
  "'img caption_model \<Rightarrow> (string list \<Rightarrow> nat tensor2) \<Rightarrow> string list \<Rightarrow> nat \<Rightarrow> 'img
     \<Rightarrow> nat \<times> (py_error + string)" where
  "generate_caption_1 model vectorization vocab SEQ_LENGTH sample_img =
     (let max_decoded_sentence_length = SEQ_LENGTH - 1;
          img = cnn_model model sample_img;
          encoded_img = encoder model img False
      in case greedy_loop (decode_step model vectorization vocab encoded_img)
                [0..<max_decoded_sentence_length] ''<start> '' of
           (n, Inl e) \<Rightarrow> (n, Inl e)
         | (n, Inr decoded_caption) \<Rightarrow>
            (n, Inr (strip (replace '' <end>'' [] 0 (replace ''<start> '' [] 0 decoded_caption)))))"

text \<open>
  The second \<open>generate_caption\<close> (the later definition in the file): a \<open>while True\<close> loop
  left when the word is the end marker or \<open>result\<close> has \<open>SEQ_LENGTH\<close> words. The decoder is
  called without a mask. The first component of the result again counts the iterations.
\<close>

function caption_while ::
  "decoder_fn \<Rightarrow> string list \<Rightarrow> nat \<Rightarrow> real tensor3 \<Rightarrow> nat tensor2 \<Rightarrow> string list
     \<Rightarrow> nat \<times> (py_error + string list)" where
  "caption_while dec vocab SEQ_LENGTH img_embed start_token result =
     (case dec start_token img_embed False None of
        Inl e \<Rightarrow> (1, Inl e)
      | Inr output \<Rightarrow>
         (case tf_argmax output of
            Inl e \<Rightarrow> (1, Inl e)
          | Inr output \<Rightarrow>
             (case list_index output 0 of
                Inl e \<Rightarrow> (1, Inl e)
              | Inr o0 \<Rightarrow>
                 (case (if o0 = [] then Inl IndexError else list_index vocab (last o0)) of
                    Inl e \<Rightarrow> (1, Inl e)
                  | Inr word \<Rightarrow>
                     if word = ''<end>'' \<or> length (result @ [word]) \<ge> SEQ_LENGTH
                     then (1, Inr (result @ [word]))
                     else (case caption_while dec vocab SEQ_LENGTH img_embed output (result @ [word])
                           of (n, r) \<Rightarrow> (Suc n, r))))))"
  by pat_completeness auto
termination
  by (relation "measure (\<lambda>(dec, vocab, SEQ_LENGTH, img_embed, start_token, result).
                           SEQ_LENGTH - length result)") auto

declare caption_while.simps [simp del]

fun join :: "string \<Rightarrow> string list \<Rightarrow> string" where
  "join sep [] = []"
| "join sep [w] = w"
| "join sep (w # ws) = w @ sep @ join sep ws"

definition generate_caption_2 ::
  "('path \<Rightarrow> 'img) \<Rightarrow> nat \<Rightarrow> 'path \<Rightarrow> 'img caption_model \<Rightarrow> (string list \<Rightarrow> nat tensor2)
     \<Rightarrow> string list \<Rightarrow> nat \<times> (py_error + string)" where
  "generate_caption_2 preprocess_image SEQ_LENGTH image_path loaded_model vectorization vocab =
     (let img_array = preprocess_image image_path;
          img_embed = cnn_model loaded_model img_array;
          img_embed = [concat img_embed];
          start_token = vectorization [''<start>''];
          end_token = vectorization [''<end>'']
      in case caption_while (decoder loaded_model) vocab SEQ_LENGTH img_embed start_token [] of
           (n, Inl e) \<Rightarrow> (n, Inl e)
         | (n, Inr result) \<Rightarrow> (n, Inr (join '' '' result)))"

section \<open>The training step\<close>

text \<open>
  Keras variables live in a store: a variable is identified by a number, and the store
  maps it to its current value. The networks are functions of the store. The model object
  lists the variables of the frozen CNN and the trainable variables of encoder and
  decoder. Automatic differentiation (\<open>tape.gradient\<close>) and the update rule of the
  optimizer are parameters: the step is modelled over any such functions.
\<close>

type_synonym var = nat

record ('img, 'v, 'g, 'o) ImageCaptioningModel =
  cnn_variables :: "var list"
  encoder_trainable_variables :: "var list"
  decoder_trainable_variables :: "var list"
  num_captions_per_image :: nat
  image_aug :: "('img \<Rightarrow> 'img) option"
  cnn_forward :: "(var \<Rightarrow> 'v) \<Rightarrow> 'img \<Rightarrow> real tensor3"
  encoder_forward :: "(var \<Rightarrow> 'v) \<Rightarrow> real tensor3 \<Rightarrow> bool \<Rightarrow> real tensor3"
  decoder_forward :: "(var \<Rightarrow> 'v) \<Rightarrow> decoder_fn"
  compiled_loss :: "nat tensor2 \<Rightarrow> real tensor3 \<Rightarrow> real tensor2"
  tape_gradient :: "(var \<Rightarrow> 'v) \<Rightarrow> real tensor3 \<Rightarrow> nat tensor2 \<Rightarrow> var list \<Rightarrow> 'g list"
  optimizer_rule :: "'o \<Rightarrow> var \<Rightarrow> 'g \<Rightarrow> 'v \<Rightarrow> 'v"
  optimizer_next :: "'o \<Rightarrow> 'o"

text \<open>A \<open>keras.metrics.Mean\<close> tracker is its running total and count.\<close>

record ('v, 'o) train_state =
  variables :: "var \<Rightarrow> 'v"
  optimizer_state :: 'o
  loss_tracker :: "tf_float \<times> nat"
  acc_tracker :: "tf_float \<times> nat"

definition update_state :: "tf_float \<times> nat \<Rightarrow> tf_float \<Rightarrow> tf_float \<times> nat" where
  "update_state tr x = (tf_add (fst tr) x, Suc (snd tr))"

definition tracker_result :: "tf_float \<times> nat \<Rightarrow> tf_float" where
  "tracker_result tr = (if snd tr = 0 then Fin 0 else tf_scale (1 / real (snd tr)) (fst tr))"

definition compute_caption_loss_and_acc ::
  "('img, 'v, 'g, 'o) ImageCaptioningModel \<Rightarrow> (var \<Rightarrow> 'v) \<Rightarrow> real tensor3 \<Rightarrow> nat tensor2 \<Rightarrow> bool
     \<Rightarrow> py_error + tf_float \<times> tf_float" where
  "compute_caption_loss_and_acc self w img_embed batch_seq training =
     (let encoder_out = encoder_forward self w img_embed training;
          batch_seq_inp = map butlast batch_seq;
          batch_seq_true = map tl batch_seq;
          mask' = not_equal_0 batch_seq_true
      in case decoder_forward self w batch_seq_inp encoder_out training (Some mask') of
           Inl e \<Rightarrow> Inl e
         | Inr batch_seq_pred \<Rightarrow>
            (case calculate_loss (compiled_loss self) batch_seq_true batch_seq_pred mask' of
               Inl e \<Rightarrow> Inl e
             | Inr loss \<Rightarrow>
                (case calculate_accuracy batch_seq_true batch_seq_pred mask' of
                   Inl e \<Rightarrow> Inl e
                 | Inr acc \<Rightarrow> Inr (loss, acc))))"

text \<open>\<open>optimizer.apply_gradients(zip(grads, train_vars))\<close>: one update per listed variable.\<close>

definition apply_gradients ::
  "('img, 'v, 'g, 'o) ImageCaptioningModel \<Rightarrow> ('v, 'o) train_state \<Rightarrow> ('g \<times> var) list
     \<Rightarrow> ('v, 'o) train_state" where
  "apply_gradients self st grads_and_vars =
     st\<lparr>variables :=
          fold (\<lambda>gv w. w(snd gv := optimizer_rule self (optimizer_state st) (snd gv) (fst gv) (w (snd gv))))
            grads_and_vars (variables st),
        optimizer_state := optimizer_next self (optimizer_state st)\<rparr>"

text \<open>\<open>batch_seq[:, i, :]\<close> on the \<open>(B, K, L)\<close> tensor of captions.\<close>

definition caption_slice :: "nat tensor3 \<Rightarrow> nat \<Rightarrow> py_error + nat tensor2" where
  "caption_slice batch_seq i =
     (if \<forall>caps \<in> set batch_seq. i < length caps then Inr (map (\<lambda>caps. caps ! i) batch_seq)
      else Inl IndexError)"

text \<open>
  The loop over the captions of \<open>train_step\<close>. The state is returned also when an
  exception ends the loop, with the updates made so far.
\<close>

fun train_captions ::
  "('img, 'v, 'g, 'o) ImageCaptioningModel \<Rightarrow> real tensor3 \<Rightarrow> nat tensor3 \<Rightarrow> nat list
     \<Rightarrow> ('v, 'o) train_state \<Rightarrow> tf_float \<Rightarrow> tf_float
     \<Rightarrow> ('v, 'o) train_state \<times> (py_error + tf_float \<times> tf_float)" where
  "train_captions self img_embed batch_seq [] st batch_loss batch_acc =
     (st, Inr (batch_loss, batch_acc))"
| "train_captions self img_embed batch_seq (i # rest) st batch_loss batch_acc =
     (case caption_slice batch_seq i of
        Inl e \<Rightarrow> (st, Inl e)
      | Inr seq \<Rightarrow>
         (case compute_caption_loss_and_acc self (variables st) img_embed seq True of
            Inl e \<Rightarrow> (st, Inl e)
          | Inr (loss, acc) \<Rightarrow>
             (let batch_loss = tf_add batch_loss loss;
                  batch_acc = tf_add batch_acc acc;
                  train_vars = encoder_trainable_variables self @ decoder_trainable_variables self;
                  grads = tape_gradient self (variables st) img_embed seq train_vars;
                  st = apply_gradients self st (zip grads train_vars)
              in train_captions self img_embed batch_seq rest st batch_loss batch_acc)))"

definition train_step ::
  "('img, 'v, 'g, 'o) ImageCaptioningModel \<Rightarrow> ('v, 'o) train_state \<Rightarrow> 'img \<times> nat tensor3
     \<Rightarrow> ('v, 'o) train_state \<times> (py_error + tf_float \<times> tf_float)" where
  "train_step self st batch_data =
     (let batch_img = fst batch_data;
          batch_seq = snd batch_data;
          batch_img = (case image_aug self of None \<Rightarrow> batch_img | Some aug \<Rightarrow> aug batch_img);
          img_embed = cnn_forward self (variables st) batch_img
      in case train_captions self img_embed batch_seq [0..<num_captions_per_image self] st
                (Fin 0) (Fin 0) of
           (st, Inl e) \<Rightarrow> (st, Inl e)
         | (st, Inr (batch_loss, batch_acc)) \<Rightarrow>
            if num_captions_per_image self = 0 then (st, Inl ZeroDivisionError)
            else
              (let batch_acc = tf_scale (1 / real (num_captions_per_image self)) batch_acc;
                   st = st\<lparr>loss_tracker := update_state (loss_tracker st) batch_loss,
                           acc_tracker := update_state (acc_tracker st) batch_acc\<rparr>
               in (st, Inr (tracker_result (loss_tracker st), tracker_result (acc_tracker st)))))"

text \<open>
  A small instance for evaluating the step: variable 0 belongs to the CNN, variable 1 to
  the encoder, variable 2 to the decoder; one caption per image; plain gradient descent
  with gradient 1 for every trained variable.
\<close>

definition example_model :: "(unit, real, real, unit) ImageCaptioningModel" where
  "example_model =
     \<lparr>cnn_variables = [0], encoder_trainable_variables = [1], decoder_trainable_variables = [2],
      num_captions_per_image = 1, image_aug = None,
      cnn_forward = (\<lambda>w img. [[[w 0]]]),
      encoder_forward = (\<lambda>w x training. x),
      decoder_forward = (\<lambda>w tokens enc training m. Inr [[[0, 1]]]),
      compiled_loss = (\<lambda>y_true y_pred. [[1]]),
      tape_gradient = (\<lambda>w img_embed seq vs. map (\<lambda>v. 1) vs),
      optimizer_rule = (\<lambda>opt v g x. x - g),
      optimizer_next = (\<lambda>opt. opt)\<rparr>"

definition example_state :: "(real, unit) train_state" where
  "example_state =
     \<lparr>variables = (\<lambda>v. 5), optimizer_state = (), loss_tracker = (Fin 0, 0),
      acc_tracker = (Fin 0, 0)\<rparr>"

section \<open>Verified properties\<close>

subsection \<open>The decoder block without a padding mask\<close>

text \<open>
  C1. The claim: the padding mask of the decoder is optional, and a call with
  \<open>mask = None\<close> returns the per-position distribution, causal masking applied. The code:
  \<open>combined_mask\<close> is assigned only when a mask is given, so with \<open>mask = None\<close> the call
  raises \<open>UnboundLocalError\<close> at the first attention layer, for every input and whatever
  the layers compute. Both definitions of the block behave so.
\<close>

theorem decoder_call_without_mask_raises:
  "DecoderClass_call self inputs encoder_outputs training None = Inl UnboundLocalError \<and>
   TransformerDecoderBlock_call self inputs encoder_outputs training None = Inl UnboundLocalError"
  by (simp add: TransformerDecoderBlock_call_def DecoderClass_call_def read_local_def Let_def)

subsection \<open>The causal attention mask\<close>

lemma causal_slice:
  "cast_int32 (greater_equal (newaxis_last (tf_range L)) (tf_range L))
     = map (\<lambda>i. map (\<lambda>j. if j \<le> i then 1 else 0) [0..<L]) [0..<L]"
  by (simp add: cast_int32_def greater_equal_def newaxis_last_def tf_range_def comp_def)

lemma concat_replicate_single: "concat (replicate n [x]) = replicate n x"
  by (induction n) auto

lemma tile3_batch: "tile3 [m] (B, Suc 0, Suc 0) = replicate B m"
proof -
  have "map (\<lambda>r. concat (replicate 1 r)) m = m"
    by (induction m) auto
  then show ?thesis
    by (simp add: tile3_def concat_replicate_single)
qed

lemma shape_uniform:
  assumes "\<forall>x\<in>set inputs. length x = L" "inputs \<noteq> []"
  shows "tf_shape3 inputs ! Suc 0 = L"
  using assms by (cases inputs) (auto simp: tf_shape3_def)

lemma causal_mask_eq:
  "get_causal_attention_mask inputs =
     replicate (length inputs)
       (map (\<lambda>i. map (\<lambda>j. if j \<le> i then 1 else 0) [0..<tf_shape3 inputs ! Suc 0])
            [0..<tf_shape3 inputs ! Suc 0])"
  by (simp add: get_causal_attention_mask_def Let_def causal_slice tile3_batch tf_shape3_def)

text \<open>
  C2. For an input of shape \<open>(B, L, D)\<close> the causal mask has shape \<open>(B, L, L)\<close>, its entry
  at \<open>(b, i, j)\<close> is 1 when \<open>j \<le> i\<close> and 0 otherwise, and the \<open>(L, L)\<close> slice is the same for
  every batch element.
\<close>

theorem causal_mask_lower_triangular:
  assumes "length inputs = B" and "\<forall>x\<in>set inputs. length x = L"
  shows "length (get_causal_attention_mask inputs) = B \<and>
         (\<forall>b<B. length (get_causal_attention_mask inputs ! b) = L \<and>
            (\<forall>i<L. length (get_causal_attention_mask inputs ! b ! i) = L \<and>
               (\<forall>j<L. get_causal_attention_mask inputs ! b ! i ! j = (if j \<le> i then 1 else 0)))) \<and>
         (\<forall>b<B. \<forall>b'<B. get_causal_attention_mask inputs ! b = get_causal_attention_mask inputs ! b')"
proof (cases "inputs = []")
  case True
  with assms(1) show ?thesis by (simp add: causal_mask_eq)
next
  case False
  then have L: "tf_shape3 inputs ! Suc 0 = L"
    using assms(2) by (rule shape_uniform[rotated])
  show ?thesis
    using assms(1) by (simp add: causal_mask_eq L)
qed

theorem causal_mask_lower_triangular_witness:
  "get_causal_attention_mask [[[0::real], [0], [0]], [[0], [0], [0]]] ! 1 ! 2 ! 1 = 1 \<and>
   get_causal_attention_mask [[[0::real], [0], [0]], [[0], [0], [0]]] ! 0 ! 1 ! 2 = 0 \<and>
   get_causal_attention_mask [[[0::real], [0], [0]], [[0], [0], [0]]] ! 0
     = get_causal_attention_mask [[[0::real], [0], [0]], [[0], [0], [0]]] ! 1"
proof -
  have h1: "length [[[0::real], [0], [0]], [[0], [0], [0]]] = 2" by simp
  have h2: "\<forall>x\<in>set [[[0::real], [0], [0]], [[0], [0], [0]]]. length x = 3" by simp
  show ?thesis
    using causal_mask_lower_triangular [OF h1 h2] by simp
qed

subsection \<open>Captions in the data pipeline\<close>

text \<open>
  C3. The claim: every caption that reaches the vectorizer from the datasets is wrapped in
  \<open><start>\<close> and \<open><end>\<close>. The code wraps the copy appended to \<open>text_data\<close> only; the
  dictionary, whose values the datasets feed to the vectorizer, gets the bare caption.
  For a file of one line, image \<open>img.jpg\<close> with a caption of five words:
\<close>

theorem dataset_caption_not_wrapped:
  "map_image_caption [''img.jpg#0'' @ [CHR 0x09] @ ''A dog runs in grass'' @ [CHR 0x0A]]
     = Inr ([(''Flicker8k_Dataset/img.jpg'', [''A dog runs in grass''])],
            [''<start> A dog runs in grass <end>'']) \<and>
   vectorizer_inputs [(''Flicker8k_Dataset/img.jpg'', [''A dog runs in grass''])]
     = [''A dog runs in grass''] \<and>
   \<not> startswith ''A dog runs in grass'' ''<start>'' \<and>
   \<not> endswith ''A dog runs in grass'' ''<end>''"
  by code_simp


subsection \<open>The learning-rate schedule\<close>

text \<open>
  C5. The schedule is a function of the step counter. With 100 warmup steps and target
  rate \<open>1e-4\<close> it gives 0 at step 0 and the target rate at steps 100 and 200; in general
  it gives \<open>target * s / warmup_steps\<close> for a step \<open>s\<close> below \<open>warmup_steps\<close> and the target
  rate from \<open>warmup_steps\<close> on.
\<close>

theorem lr_schedule_warmup_then_constant:
  "LRSchedule_call \<lparr>post_warmup_learning_rate = 1 / 10000, warmup_steps = 100\<rparr> 0 = Fin 0 \<and>
   LRSchedule_call \<lparr>post_warmup_learning_rate = 1 / 10000, warmup_steps = 100\<rparr> 100 = Fin (1 / 10000) \<and>
   LRSchedule_call \<lparr>post_warmup_learning_rate = 1 / 10000, warmup_steps = 100\<rparr> 200 = Fin (1 / 10000) \<and>
   (int s < warmup_steps self \<longrightarrow>
      LRSchedule_call self s
        = Fin (post_warmup_learning_rate self * real s / real_of_int (warmup_steps self))) \<and>
   (warmup_steps self \<le> int s \<longrightarrow>
      LRSchedule_call self s = Fin (post_warmup_learning_rate self))"
proof -
  have warm: "LRSchedule_call self s
                = Fin (post_warmup_learning_rate self * real s / real_of_int (warmup_steps self))"
    if "int s < warmup_steps self"
  proof -
    from that have "real s < real_of_int (warmup_steps self)"
      by (metis of_int_less_iff of_int_of_nat_eq)
    moreover from that have "real_of_int (warmup_steps self) \<noteq> 0"
      by auto
    ultimately show ?thesis
      by (simp add: LRSchedule_call_def Let_def tf_truediv_def)
  qed
  have const: "LRSchedule_call self s = Fin (post_warmup_learning_rate self)"
    if "warmup_steps self \<le> int s"
  proof -
    from that have "\<not> real s < real_of_int (warmup_steps self)"
      by (metis of_int_less_iff of_int_of_nat_eq not_less)
    then show ?thesis
      by (simp add: LRSchedule_call_def Let_def)
  qed
  show ?thesis
    using warm const by (simp add: LRSchedule_call_def Let_def tf_truediv_def)
qed

theorem lr_schedule_warmup_then_constant_witness:
  "int 50 < warmup_steps \<lparr>post_warmup_learning_rate = 1 / 10000, warmup_steps = 100\<rparr> \<and>
   LRSchedule_call \<lparr>post_warmup_learning_rate = 1 / 10000, warmup_steps = 100\<rparr> 50 = Fin (1 / 20000) \<and>
   warmup_steps \<lparr>post_warmup_learning_rate = 1 / 10000, warmup_steps = 100\<rparr> \<le> int 150 \<and>
   LRSchedule_call \<lparr>post_warmup_learning_rate = 1 / 10000, warmup_steps = 100\<rparr> 150 = Fin (1 / 10000)"
  using lr_schedule_warmup_then_constant
          [of 50 "\<lparr>post_warmup_learning_rate = 1 / 10000, warmup_steps = 100\<rparr>"]
        lr_schedule_warmup_then_constant
          [of 150 "\<lparr>post_warmup_learning_rate = 1 / 10000, warmup_steps = 100\<rparr>"]
  by simp

lemma LRSchedule_call_statements:
  "LRSchedule_call self step =
     (if global_step_val (LRSchedule_statements self step)
           < warmup_steps_val (LRSchedule_statements self step)
      then warmup_learning_rate_val (LRSchedule_statements self step)
      else Fin (post_warmup_learning_rate self))"
  by (simp add: LRSchedule_call_def LRSchedule_statements_def Let_def)

text \<open>
  C8. The claim: with \<open>warmup_steps = 0\<close> the schedule never divides by zero and returns
  the target rate. The quotient \<open>global_step / warmup_steps\<close> is computed on every call: at
  \<open>warmup_steps = 0\<close> its divisor is 0, and the quotient is \<open>+inf\<close> at step 5 and NaN at
  step 0.
\<close>

theorem zero_warmup_divides_by_zero:
  "warmup_steps_val
     (LRSchedule_statements \<lparr>post_warmup_learning_rate = 1 / 10000, warmup_steps = 0\<rparr> 5) = 0 \<and>
   warmup_progress_val
     (LRSchedule_statements \<lparr>post_warmup_learning_rate = 1 / 10000, warmup_steps = 0\<rparr> 5) = PosInf \<and>
   warmup_progress_val
     (LRSchedule_statements \<lparr>post_warmup_learning_rate = 1 / 10000, warmup_steps = 0\<rparr> 0) = NaN"
  by (simp add: LRSchedule_statements_def tf_truediv_def)

text \<open>
  C8, as the code has it. With \<open>warmup_steps = 0\<close> every call divides by zero: the
  divisor is 0 and the quotient is NaN at step 0 and \<open>+inf\<close> at every later step, as a
  float division that raises nothing. The quotient is discarded, since the test
  \<open>global_step < 0\<close> is false, and the call returns the target rate at every step.
\<close>

theorem lr_schedule_zero_warmup:
  "LRSchedule_call \<lparr>post_warmup_learning_rate = target, warmup_steps = 0\<rparr> s = Fin target \<and>
   warmup_steps_val
     (LRSchedule_statements \<lparr>post_warmup_learning_rate = target, warmup_steps = 0\<rparr> s) = 0 \<and>
   warmup_progress_val
     (LRSchedule_statements \<lparr>post_warmup_learning_rate = target, warmup_steps = 0\<rparr> s)
     = (if s = 0 then NaN else PosInf)"
  by (simp add: LRSchedule_call_def LRSchedule_statements_def tf_truediv_def Let_def)

subsection \<open>Masked loss and accuracy\<close>

lemma row_product_zeroed:
  "sum_list (map2 (*) cs (map (\<lambda>b. if b then 1 else 0) (map (\<lambda>x. x \<noteq> 0) ts)))
     = (\<Sum>(t, c) \<leftarrow> zip ts cs. if t = 0 then 0 else (c::real))"
proof (induction cs arbitrary: ts)
  case Nil
  then show ?case by simp
next
  case (Cons c cs)
  then show ?case by (cases ts) auto
qed

lemma masked_sum_eq_spec:
  "reduce_sum (map2 (map2 (*)) ce (cast_float (not_equal_0 y_true))) = spec_zeroed_sum y_true ce"
proof (induction ce arbitrary: y_true)
  case Nil
  then show ?case by (simp add: reduce_sum_def spec_zeroed_sum_def)
next
  case (Cons cs ce)
  show ?case
  proof (cases y_true)
    case Nil
    then show ?thesis by (simp add: reduce_sum_def spec_zeroed_sum_def cast_float_def not_equal_0_def)
  next
    case (Cons ts rest)
    have "reduce_sum (map2 (map2 (*)) ce (cast_float (not_equal_0 rest))) = spec_zeroed_sum rest ce"
      by (rule Cons.IH)
    then show ?thesis
      using Cons row_product_zeroed[of cs ts]
      by (simp add: reduce_sum_def spec_zeroed_sum_def cast_float_def not_equal_0_def)
  qed
qed

lemma row_count: "sum_list (map (\<lambda>b. if b then 1 else 0) (map (\<lambda>x. x \<noteq> 0) ts)) = real (length (filter (\<lambda>t. t \<noteq> (0::nat)) ts))"
  by (induction ts) auto

lemma mask_sum_eq_count:
  "reduce_sum (cast_float (not_equal_0 y_true)) = real (spec_valid_count y_true)"
proof (induction y_true)
  case Nil
  then show ?case
    by (simp add: reduce_sum_def cast_float_def not_equal_0_def spec_valid_count_def)
next
  case (Cons ts rest)
  have "reduce_sum (cast_float (not_equal_0 (ts # rest)))
          = sum_list (map (\<lambda>b. if b then 1 else 0) (map (\<lambda>x. x \<noteq> 0) ts))
            + reduce_sum (cast_float (not_equal_0 rest))"
    by (simp add: reduce_sum_def cast_float_def not_equal_0_def)
  also have "\<dots> = real (length (filter (\<lambda>t. t \<noteq> 0) ts)) + real (spec_valid_count rest)"
    by (simp only: row_count Cons.IH)
  also have "\<dots> = real (spec_valid_count (ts # rest))"
    by (simp add: spec_valid_count_def)
  finally show ?case .
qed

lemma valid_count_pos:
  assumes "ts \<in> set y_true" "t \<in> set ts" "t \<noteq> 0"
  shows "0 < spec_valid_count y_true"
proof -
  from assms(2,3) have "filter (\<lambda>t. t \<noteq> 0) ts \<noteq> []"
    by (auto simp: filter_empty_conv)
  then have "0 < length (filter (\<lambda>t. t \<noteq> 0) ts)" by simp
  moreover have "length (filter (\<lambda>t. t \<noteq> 0) ts) \<le> spec_valid_count y_true"
    unfolding spec_valid_count_def using assms(1)
    by (simp add: member_le_sum_list)
  ultimately show ?thesis by linarith
qed

lemma same_shape2_mask:
  "same_shape2 ce y_true \<Longrightarrow> same_shape2 ce (cast_float (not_equal_0 y_true))"
  by (simp add: same_shape2_def cast_float_def not_equal_0_def list_all2_map2)

text \<open>
  C4. When the mask is true exactly at the non-padding target positions and at least one
  position is valid, the masked loss is the sum of the per-position cross-entropy values,
  zeroed at padding positions, divided by the number of non-padding positions.
\<close>

theorem masked_loss_mean_over_valid:
  assumes "same_shape2 (self_loss y_true y_pred) y_true"
    and "mask' = not_equal_0 y_true"
    and "ts \<in> set y_true" and "t \<in> set ts" and "t \<noteq> 0"
  shows "calculate_loss self_loss y_true y_pred mask'
           = Inr (Fin (spec_masked_loss y_true (self_loss y_true y_pred)))"
proof -
  have "real (spec_valid_count y_true) \<noteq> 0"
    using valid_count_pos[OF assms(3,4,5)] by simp
  then show ?thesis
    using same_shape2_mask[OF assms(1)]
    by (simp add: calculate_loss_def assms(2) elementwise2_def Let_def masked_sum_eq_spec
          mask_sum_eq_count tf_truediv_def spec_masked_loss_def)
qed

theorem masked_loss_mean_over_valid_witness:
  "calculate_loss (\<lambda>y_true y_pred. [[1, 2, 3]]) [[4, 5, 0]] [[[0, 1], [1, 0], [1, 0]]] [[True, True, False]]
     = Inr (Fin (3 / 2))"
proof -
  have h1: "same_shape2 ((\<lambda>y_true y_pred. [[1, 2, 3::real]]) [[4, 5, 0::nat]] [[[0, 1], [1, 0], [1, 0::real]]]) [[4, 5, 0::nat]]"
    by (simp add: same_shape2_def)
  have h2: "[[True, True, False]] = not_equal_0 [[4, 5, 0]]"
    by (simp add: not_equal_0_def)
  have h3: "[4, 5, 0] \<in> set [[4, 5, 0::nat]]" by simp
  have h4: "(4::nat) \<in> set [4, 5, 0]" by simp
  have h5: "(4::nat) \<noteq> 0" by simp
  show ?thesis
    using masked_loss_mean_over_valid [OF h1 h2 h3 h4 h5]
    by (simp add: spec_masked_loss_def spec_zeroed_sum_def spec_valid_count_def)
qed

lemma row_mask_false_sum:
  assumes "\<forall>b\<in>set row. \<not> b"
  shows "sum_list (map (\<lambda>b. if b then 1 else (0::real)) row) = 0"
  using assms by (induction row) auto

lemma mask_false_sum:
  assumes "\<forall>row\<in>set m. \<forall>b\<in>set row. \<not> b"
  shows "reduce_sum (cast_float m) = 0"
  using assms
  by (induction m) (auto simp: reduce_sum_def cast_float_def row_mask_false_sum)

lemma row_masked_product_zero:
  assumes "\<forall>b\<in>set row. \<not> b"
  shows "sum_list (map2 (*) cs (map (\<lambda>b. if b then 1 else (0::real)) row)) = 0"
  using assms
proof (induction cs arbitrary: row)
  case Nil
  then show ?case by simp
next
  case (Cons c cs)
  then show ?case by (cases row) auto
qed

lemma masked_product_zero:
  assumes "\<forall>row\<in>set m. \<forall>b\<in>set row. \<not> b"
  shows "reduce_sum (map2 (map2 (*)) ce (cast_float m)) = 0"
  using assms
proof (induction ce arbitrary: m)
  case Nil
  then show ?case by (simp add: reduce_sum_def)
next
  case (Cons cs ce)
  show ?case
  proof (cases m)
    case Nil
    then show ?thesis by (simp add: reduce_sum_def cast_float_def)
  next
    case (Cons row rest)
    with Cons.prems have r: "\<forall>b\<in>set row. \<not> b" and "\<forall>row\<in>set rest. \<forall>b\<in>set row. \<not> b"
      by auto
    then have "reduce_sum (map2 (map2 (*)) ce (cast_float rest)) = 0"
      using Cons.IH by blast
    then show ?thesis
      using Cons row_masked_product_zero[OF r, of cs]
      by (simp add: reduce_sum_def cast_float_def)
  qed
qed

lemma row_masked_and_false:
  assumes "\<forall>b\<in>set row. \<not> b"
  shows "\<forall>b\<in>set (map2 (\<and>) row acc). \<not> b"
  using assms by (auto dest!: set_zip_leftD)

lemma masked_and_false:
  assumes "\<forall>row\<in>set m. \<forall>b\<in>set row. \<not> b"
  shows "\<forall>row\<in>set (map2 (map2 (\<and>)) m acc). \<forall>b\<in>set row. \<not> b"
proof
  fix r assume "r \<in> set (map2 (map2 (\<and>)) m acc)"
  then obtain row a where "(row, a) \<in> set (zip m acc)" and r: "r = map2 (\<and>) row a"
    by auto
  then have "row \<in> set m" by (auto dest: set_zip_leftD)
  with assms have "\<forall>b\<in>set row. \<not> b" by blast
  then show "\<forall>b\<in>set r. \<not> b"
    unfolding r by (rule row_masked_and_false)
qed

lemma same_shape2_cast: "same_shape2 x m \<Longrightarrow> same_shape2 x (cast_float m)"
  by (simp add: same_shape2_def cast_float_def list_all2_map2)

lemma same_shape2_map2:
  assumes "same_shape2 z x" and "same_shape2 x y"
  shows "same_shape2 z (map2 (map2 f) x y)"
  using assms unfolding same_shape2_def
proof (induction z x arbitrary: y rule: list_all2_induct)
  case Nil
  then show ?case by simp
next
  case (Cons a z b x)
  then show ?case by (cases y) auto
qed

text \<open>
  C7, as the code has it. When no entry of the mask is true (and the shapes agree, as they
  do in \<open>_compute_caption_loss_and_acc\<close>), loss and accuracy are both \<open>0 / 0\<close>: the
  division is made without a guard and the result is NaN.
\<close>

theorem all_padding_gives_nan:
  assumes "\<forall>row\<in>set mask'. \<forall>b\<in>set row. \<not> b"
    and "same_shape2 (self_loss y_true y_pred) mask'"
    and "tf_argmax y_pred = Inr am"
    and "same_shape2 y_true am"
    and "same_shape2 mask' y_true"
  shows "calculate_loss self_loss y_true y_pred mask' = Inr NaN \<and>
         calculate_accuracy y_true y_pred mask' = Inr NaN"
proof
  show "calculate_loss self_loss y_true y_pred mask' = Inr NaN"
    using same_shape2_cast[OF assms(2)]
    by (simp add: calculate_loss_def elementwise2_def Let_def tf_truediv_def
          mask_false_sum[OF assms(1)] masked_product_zero[OF assms(1)])
next
  have shape: "same_shape2 mask' (map2 (map2 (=)) y_true am)"
    using assms(5,4) by (rule same_shape2_map2)
  have "reduce_sum (cast_float (map2 (map2 (\<and>)) mask' (map2 (map2 (=)) y_true am))) = 0"
    using masked_and_false[OF assms(1)] by (rule mask_false_sum)
  then show "calculate_accuracy y_true y_pred mask' = Inr NaN"
    using shape assms(4)
    by (simp add: calculate_accuracy_def assms(3) elementwise2_def Let_def tf_truediv_def
          mask_false_sum[OF assms(1)])
qed

text \<open>
  C7. The claim: for a fully padded caption, loss and accuracy are guarded and give a zero
  contribution. At a batch of one caption with two padding positions both are NaN, not 0.
\<close>

theorem fully_padded_caption_not_guarded:
  "calculate_loss (\<lambda>y_true y_pred. [[1, 2]]) [[0, 0]] [[[1, 0], [1, 0]]] [[False, False]] = Inr NaN \<and>
   calculate_loss (\<lambda>y_true y_pred. [[1, 2]]) [[0, 0]] [[[1, 0], [1, 0]]] [[False, False]] \<noteq> Inr (Fin 0) \<and>
   calculate_accuracy [[0, 0]] [[[1, 0], [1, 0]]] [[False, False]] = Inr NaN \<and>
   calculate_accuracy [[0, 0]] [[[1, 0], [1, 0]]] [[False, False]] \<noteq> Inr (Fin 0)"
  by (simp add: calculate_loss_def calculate_accuracy_def elementwise2_def same_shape2_def
        cast_float_def reduce_sum_def tf_truediv_def tf_argmax_def argmax_def Let_def)

theorem all_padding_gives_nan_witness:
  "calculate_loss (\<lambda>y_true y_pred. [[3, 4]]) [[0, 0]] [[[0, 1], [1, 0]]] [[False, False]] = Inr NaN \<and>
   calculate_accuracy [[0, 0]] [[[0, 1], [1, 0]]] [[False, False]] = Inr NaN"
proof -
  have h1: "\<forall>row\<in>set [[False, False]]. \<forall>b\<in>set row. \<not> b" by simp
  have h2: "same_shape2 ((\<lambda>y_true y_pred. [[3, 4::real]]) [[0, 0::nat]] [[[0, 1], [1, 0::real]]]) [[False, False]]"
    by (simp add: same_shape2_def)
  have h3: "tf_argmax [[[0, 1], [1, 0::real]]] = Inr [[1, 0]]"
    by (simp add: tf_argmax_def argmax_def)
  have h4: "same_shape2 [[0, 0::nat]] [[1, 0::nat]]" by (simp add: same_shape2_def)
  have h5: "same_shape2 [[False, False]] [[0, 0::nat]]" by (simp add: same_shape2_def)
  show ?thesis
    using all_padding_gives_nan [OF h1 h2 h3 h4 h5] by simp
qed

subsection \<open>Greedy decoding\<close>

lemma greedy_loop_bound: "fst (greedy_loop body idxs d) \<le> length idxs"
proof (induction idxs arbitrary: d)
  case Nil
  then show ?case by simp
next
  case (Cons i rest)
  show ?case
  proof (cases "body i d")
    case (Inl e)
    then show ?thesis by simp
  next
    case (Inr r)
    obtain stop d' where r: "r = (stop, d')" by (cases r)
    show ?thesis
    proof (cases stop)
      case True
      with Inr r show ?thesis by simp
    next
      case False
      obtain n res where g: "greedy_loop body rest d' = (n, res)"
        by (cases "greedy_loop body rest d'")
      have "fst (greedy_loop body rest d') \<le> length rest" by (rule Cons.IH)
      with g have "n \<le> length rest" by simp
      with False Inr r g show ?thesis by simp
    qed
  qed
qed

lemma caption_while_bound:
  "fst (caption_while dec vocab SEQ_LENGTH img_embed start_token result)
     \<le> max 1 (SEQ_LENGTH - length result)"
proof (induction dec vocab SEQ_LENGTH img_embed start_token result rule: caption_while.induct)
  case (1 dec vocab SEQ_LENGTH img_embed start_token result)
  show ?case
  proof (cases "dec start_token img_embed False None")
    case (Inl e)
    then show ?thesis by (subst caption_while.simps) simp
  next
    case a: (Inr preds)
    show ?thesis
    proof (cases "tf_argmax preds")
      case (Inl e)
      with a show ?thesis by (subst caption_while.simps) simp
    next
      case b: (Inr ids)
      show ?thesis
      proof (cases "list_index ids 0")
        case (Inl e)
        with a b show ?thesis by (subst caption_while.simps) simp
      next
        case c: (Inr o0)
        show ?thesis
        proof (cases "if o0 = [] then Inl IndexError else list_index vocab (last o0)")
          case (Inl e)
          with a b c show ?thesis by (subst caption_while.simps) simp
        next
          case d: (Inr word)
          show ?thesis
          proof (cases "word = ''<end>'' \<or> length (result @ [word]) \<ge> SEQ_LENGTH")
            case True
            with a b c d show ?thesis by (subst caption_while.simps) simp
          next
            case False
            obtain n res where
              g: "caption_while dec vocab SEQ_LENGTH img_embed ids (result @ [word]) = (n, res)"
              by (cases "caption_while dec vocab SEQ_LENGTH img_embed ids (result @ [word])")
            have "fst (caption_while dec vocab SEQ_LENGTH img_embed ids (result @ [word]))
                    \<le> max 1 (SEQ_LENGTH - length (result @ [word]))"
              using a b c d False by (rule "1.IH")
            moreover from False have "Suc 0 \<le> SEQ_LENGTH - Suc (length result)"
              by simp arith
            ultimately have n: "n \<le> SEQ_LENGTH - Suc (length result)"
              using g by (simp add: max_def)
            have "caption_while dec vocab SEQ_LENGTH img_embed start_token result = (Suc n, res)"
              using a b c d False g by (subst caption_while.simps) simp
            with n False show ?thesis by simp
          qed
        qed
      qed
    qed
  qed
qed

text \<open>
  The bounds the two loops have by themselves, for any decoder: the first starts at most
  \<open>SEQ_LENGTH - 1\<close> iterations, the second at most \<open>SEQ_LENGTH\<close> (one when \<open>SEQ_LENGTH\<close>
  is 0).
\<close>

lemma loop_iteration_bounds:
  "fst (generate_caption_1 model vectorization vocab SEQ_LENGTH sample_img) \<le> SEQ_LENGTH - 1 \<and>
   fst (generate_caption_2 preprocess_image SEQ_LENGTH image_path loaded_model vectorization vocab)
     \<le> max 1 SEQ_LENGTH"
proof
  have "fst (generate_caption_1 model vectorization vocab SEQ_LENGTH sample_img)
          = fst (greedy_loop
                  (decode_step model vectorization vocab
                     (encoder model (cnn_model model sample_img) False))
                  [0..<SEQ_LENGTH - 1] ''<start> '')"
    by (simp add: generate_caption_1_def Let_def split: prod.splits sum.splits)
  also have "\<dots> \<le> length [0..<SEQ_LENGTH - 1]"
    by (rule greedy_loop_bound)
  finally show "fst (generate_caption_1 model vectorization vocab SEQ_LENGTH sample_img)
                  \<le> SEQ_LENGTH - 1"
    by simp
next
  have "fst (generate_caption_2 preprocess_image SEQ_LENGTH image_path loaded_model vectorization vocab)
          = fst (caption_while (decoder loaded_model) vocab SEQ_LENGTH
                  [concat (cnn_model loaded_model (preprocess_image image_path))]
                  (vectorization [''<start>'']) [])"
    by (simp add: generate_caption_2_def Let_def split: prod.splits sum.splits)
  also have "\<dots> \<le> max 1 (SEQ_LENGTH - length ([]::string list))"
    by (rule caption_while_bound)
  finally show "fst (generate_caption_2 preprocess_image SEQ_LENGTH image_path loaded_model
                       vectorization vocab) \<le> max 1 SEQ_LENGTH"
    by simp
qed

text \<open>
  The bound of the second loop is reached by a decoder that answers a call without a
  mask and never predicts the end marker: 25 iterations for \<open>SEQ_LENGTH = 25\<close>, one more
  than \<open>max_decoded_sentence_length = SEQ_LENGTH - 1\<close> of the first loop.
\<close>

lemma second_loop_own_bound:
  "fst (generate_caption_2 (\<lambda>p. ()) sequence_length ()
          \<lparr>cnn_model = (\<lambda>img. [[[0]]]), encoder = (\<lambda>x training. x),
           decoder = (\<lambda>tokens enc training m. Inr [[[0, 1]]])\<rparr>
          (\<lambda>strings. [[1]]) [''<end>'', ''dog'']) = 25 \<and>
   \<not> fst (generate_caption_2 (\<lambda>p. ()) sequence_length ()
          \<lparr>cnn_model = (\<lambda>img. [[[0]]]), encoder = (\<lambda>x training. x),
           decoder = (\<lambda>tokens enc training m. Inr [[[0, 1]]])\<rparr>
          (\<lambda>strings. [[1]]) [''<end>'', ''dog'']) \<le> sequence_length - 1"
  by code_simp

text \<open>
  C6. The decoding loop runs at most \<open>sequence_length - 1\<close> times and ends by the end
  marker or by its bound. The first \<open>generate_caption\<close> keeps the bound for every model.
  The second one calls the decoder without a mask: with either decoder block of the file
  its loop ends in the first iteration by \<open>UnboundLocalError\<close>, for every image, neither by
  the end marker nor by its bound.
\<close>

theorem second_generate_caption_raises:
  "fst (generate_caption_1 model vectorization vocab SEQ_LENGTH sample_img) \<le> SEQ_LENGTH - 1 \<and>
   generate_caption_2 preprocess_image SEQ_LENGTH image_path
       (loaded_model\<lparr>decoder := DecoderClass_call layers\<rparr>) vectorization vocab
     = (1, Inl UnboundLocalError) \<and>
   generate_caption_2 preprocess_image SEQ_LENGTH image_path
       (loaded_model\<lparr>decoder := TransformerDecoderBlock_call layers\<rparr>) vectorization vocab
     = (1, Inl UnboundLocalError)"
proof -
  have raises: "DecoderClass_call layers tokens enc False None = Inl UnboundLocalError"
    for tokens enc
    by (simp add: DecoderClass_call_def read_local_def Let_def)
  have first: "fst (generate_caption_1 model vectorization vocab SEQ_LENGTH sample_img)
                 \<le> SEQ_LENGTH - 1"
    by (rule loop_iteration_bounds [THEN conjunct1])
  have second: "generate_caption_2 preprocess_image SEQ_LENGTH image_path
                    (loaded_model\<lparr>decoder := DecoderClass_call layers\<rparr>) vectorization vocab
                  = (1, Inl UnboundLocalError)"
    by (simp add: generate_caption_2_def Let_def caption_while.simps raises)
  from first second show ?thesis
    by (simp add: TransformerDecoderBlock_call_def)
qed

subsection \<open>The training step\<close>

lemma fold_update_frame:
  assumes "v \<notin> snd ` set gvs"
  shows "fold (\<lambda>gv w. w(snd gv := f (snd gv) (fst gv) (w (snd gv)))) gvs w v = w v"
  using assms by (induction gvs arbitrary: w) auto

lemma apply_gradients_frame:
  assumes "v \<notin> snd ` set grads_and_vars"
  shows "variables (apply_gradients self st grads_and_vars) v = variables st v"
  using fold_update_frame[OF assms, of "optimizer_rule self (optimizer_state st)"]
  by (simp add: apply_gradients_def)

lemma train_captions_frame:
  assumes "v \<notin> set (encoder_trainable_variables self)"
    and "v \<notin> set (decoder_trainable_variables self)"
  shows "variables (fst (train_captions self img_embed batch_seq idxs st batch_loss batch_acc)) v
           = variables st v"
proof (induction idxs arbitrary: st batch_loss batch_acc)
  case Nil
  then show ?case by simp
next
  case (Cons i rest)
  show ?case
  proof (cases "caption_slice batch_seq i")
    case (Inl e)
    then show ?thesis by simp
  next
    case s: (Inr seq)
    show ?thesis
    proof (cases "compute_caption_loss_and_acc self (variables st) img_embed seq True")
      case (Inl e)
      with s show ?thesis by simp
    next
      case c: (Inr la)
      obtain loss acc where la: "la = (loss, acc)" by (cases la)
      define train_vars where
        "train_vars = encoder_trainable_variables self @ decoder_trainable_variables self"
      define st' where
        "st' = apply_gradients self st
                 (zip (tape_gradient self (variables st) img_embed seq train_vars) train_vars)"
      have "v \<notin> snd ` set (zip (tape_gradient self (variables st) img_embed seq train_vars) train_vars)"
        using assms by (auto simp: train_vars_def dest: set_zip_rightD)
      then have frame: "variables st' v = variables st v"
        unfolding st'_def by (rule apply_gradients_frame)
      have "train_captions self img_embed batch_seq (i # rest) st batch_loss batch_acc
              = train_captions self img_embed batch_seq rest st'
                  (tf_add batch_loss loss) (tf_add batch_acc acc)"
        using s c la by (simp add: Let_def st'_def train_vars_def)
      then show ?thesis
        using Cons.IH[of st' "tf_add batch_loss loss" "tf_add batch_acc acc"] frame by simp
    qed
  qed
qed

lemma train_step_frame:
  assumes "v \<notin> set (encoder_trainable_variables self)"
    and "v \<notin> set (decoder_trainable_variables self)"
  shows "variables (fst (train_step self st batch_data)) v = variables st v"
proof -
  define img_embed where
    "img_embed = cnn_forward self (variables st)
                   (case image_aug self of None \<Rightarrow> fst batch_data | Some aug \<Rightarrow> aug (fst batch_data))"
  define r where
    "r = train_captions self img_embed (snd batch_data) [0..<num_captions_per_image self] st
           (Fin 0) (Fin 0)"
  have fr: "variables (fst r) v = variables st v"
    unfolding r_def using assms by (rule train_captions_frame)
  have "variables (fst (train_step self st batch_data)) v = variables (fst r) v"
    by (cases r) (auto simp: train_step_def Let_def r_def[symmetric] img_embed_def[symmetric]
                       split: sum.splits prod.splits)
  with fr show ?thesis by simp
qed

text \<open>
  C9. A training step leaves every parameter of the CNN as it was: the optimizer writes
  only the variables in \<open>encoder.trainable_variables + decoder.trainable_variables\<close>, and
  the CNN's variables are not among them. This holds also for a step that an exception
  ends after some of its updates.
\<close>

theorem train_step_keeps_cnn_parameters:
  assumes "set (cnn_variables self) \<inter>
             (set (encoder_trainable_variables self) \<union> set (decoder_trainable_variables self)) = {}"
  shows "\<forall>v \<in> set (cnn_variables self).
           variables (fst (train_step self st batch_data)) v = variables st v"
proof
  fix v assume "v \<in> set (cnn_variables self)"
  with assms have "v \<notin> set (encoder_trainable_variables self)"
    and "v \<notin> set (decoder_trainable_variables self)"
    by auto
  then show "variables (fst (train_step self st batch_data)) v = variables st v"
    by (rule train_step_frame)
qed

theorem train_step_keeps_cnn_parameters_witness:
  "set (cnn_variables example_model) \<inter>
     (set (encoder_trainable_variables example_model) \<union>
      set (decoder_trainable_variables example_model)) = {} \<and>
   variables (fst (train_step example_model example_state ((), [[[7, 1]]]))) 0
     = variables example_state 0 \<and>
   variables (fst (train_step example_model example_state ((), [[[7, 1]]]))) 1 = 4 \<and>
   snd (train_step example_model example_state ((), [[[7, 1]]])) = Inr (Fin 1, Fin 1)"
proof -
  have h: "set (cnn_variables example_model) \<inter>
             (set (encoder_trainable_variables example_model) \<union>
              set (decoder_trainable_variables example_model)) = {}"
    by (simp add: example_model_def)
  have a: "variables (fst (train_step example_model example_state ((), [[[7, 1]]]))) 0
             = variables example_state 0"
    using train_step_keeps_cnn_parameters [OF h, of example_state "((), [[[7, 1]]])"]
    by (simp add: example_model_def)
  have b: "variables (fst (train_step example_model example_state ((), [[[7, 1]]]))) 1 = 4 \<and>
           snd (train_step example_model example_state ((), [[[7, 1]]])) = Inr (Fin 1, Fin 1)"
    by code_simp
  show ?thesis
    using h a b by simp
qed

end
